theory Spec2Isabelle
  imports Main "HOL-Library.Char_ord" "HOL-Library.List_Lexorder"
    "HOL-Library.Product_Lexorder" "HOL-Library.Multiset"
begin

section \<open>The GroupImports lint rule (weighted-sort variant)\<close>

text \<open>
  A shallow embedding of the weighted-sort GroupImports rule (the rule file that requires
  \<^verbatim>\<open>micromatch\<close> and \<^verbatim>\<open>./configuration\<close> and defines \<^verbatim>\<open>getImportWeight\<close>).

  Conventions of the embedding:
  \<^item> JavaScript strings are \<^typ>\<open>string\<close>; \<open><\<close> on strings is the lexicographic order on
    character codes (a proper prefix is smaller), as JavaScript's \<open><\<close> on strings is on
    code units.
  \<^item> \<^verbatim>\<open>undefined\<close> as the value of \<^verbatim>\<open>defaultImport\<close> and \<^verbatim>\<open>namespaceImport\<close> (the result of
    \<^verbatim>\<open>pop()\<close> on an empty array) is \<^term>\<open>None\<close>.
  \<^item> Numbers are \<^typ>\<open>nat\<close> (indices, weights) and \<^typ>\<open>int\<close> (source offsets); the weights
    are far below the range where a double stops being exact.
  \<^item> A thrown \<^verbatim>\<open>TypeError\<close> is \<^term>\<open>Inl TypeError\<close>.
  \<^item> The glob matcher \<^verbatim>\<open>micromatch.isMatch\<close> is an external library: every function that
    calls it takes it as the parameter \<open>isMatch\<close> (path first, pattern second).
\<close>

subsection \<open>Data\<close>

datatype SpecifierType = ImportDefaultSpecifier | ImportNamespaceSpecifier | ImportSpecifier

record ImportSpecifierNode =
  sp_type :: SpecifierType
  sp_imported_name :: string
  sp_local_name :: string

record ImportNode =
  n_start :: int
  n_end :: int
  n_specifiers :: "ImportSpecifierNode list"
  n_source_value :: string

record SingleImport =
  si_name :: string
  si_alias :: string

record ImportWeight =
  w_group :: nat
  w_pattern :: nat
  w_type :: nat
  w_name :: string

record ImportRecord =
  defaultImport :: "string option"
  namespaceImport :: "string option"
  singleImports :: "SingleImport list"
  path :: string
  weight :: ImportWeight
  node :: ImportNode

datatype error = TypeError

datatype platform = Win32 | OtherPlatform

text \<open>\<^verbatim>\<open>const LINE_BREAK_LENGTH = process.platform === 'win32' ? 2 : 1;\<close>\<close>

definition LINE_BREAK_LENGTH :: "platform \<Rightarrow> int" where
  "LINE_BREAK_LENGTH pf = (if pf = Win32 then 2 else 1)"

text \<open>The configuration module's \<^verbatim>\<open>groups\<close>.\<close>

definition groups :: "string list list" where
  "groups =
    [ [''react'', ''prop-types'', ''react-*'', ''redux'', ''reselect'', ''lodash''],
      [''sr-*'', ''tdr-*''],
      [''components/**/*''],
      [''modules/!(utilities)''],
      [''modules/**/selectors''],
      [''modules/**/sagas''],
      [''modules/utilities''] ]"

subsection \<open>JavaScript primitives used by the rule\<close>

text \<open>Truthiness of a value that is a string or \<^verbatim>\<open>undefined\<close>: the empty string is falsy.\<close>

fun truthy :: "string option \<Rightarrow> bool" where
  "truthy None = False"
| "truthy (Some s) = (s \<noteq> [])"

text \<open>String conversion inside a template literal.\<close>

fun toStr :: "string option \<Rightarrow> string" where
  "toStr None = ''undefined''"
| "toStr (Some s) = s"

text \<open>\<^verbatim>\<open>Array.prototype.join\<close> on an array of strings.\<close>

fun join :: "string \<Rightarrow> string list \<Rightarrow> string" where
  "join sep [] = []"
| "join sep [x] = x"
| "join sep (x # y # ys) = x @ sep @ join sep (y # ys)"

text \<open>\<^verbatim>\<open>Array.prototype.pop\<close>: the last element, \<^verbatim>\<open>undefined\<close> on an empty array.\<close>

fun pop :: "string list \<Rightarrow> string option" where
  "pop [] = None"
| "pop (x # xs) = Some (last (x # xs))"

text \<open>The single quote character and the line feed.\<close>

definition sq :: string where
  "sq = [CHR 0x27]"

definition lf :: string where
  "lf = [CHR 0x0A]"

subsection \<open>Rendering an import record as code\<close>

definition getSingleImportAsCodeString :: "SingleImport \<Rightarrow> string" where
  "getSingleImportAsCodeString singleImport =
    (if si_name singleImport = si_alias singleImport then si_name singleImport
     else si_name singleImport @ '' as '' @ si_alias singleImport)"

definition getDefaultImportRecordAsCodeString :: "ImportRecord \<Rightarrow> string" where
  "getDefaultImportRecordAsCodeString r =
    ''import '' @ toStr (defaultImport r) @ '' from '' @ sq @ path r @ sq @ '';''"

definition getDefaultAndSingleImportRecordAsCodeString :: "ImportRecord \<Rightarrow> string" where
  "getDefaultAndSingleImportRecordAsCodeString r =
    (let singleImportStrings = map getSingleImportAsCodeString (singleImports r)
     in ''import '' @ toStr (defaultImport r) @ '', { '' @ join '','' singleImportStrings
          @ '' } from '' @ sq @ path r @ sq @ '';'')"

definition getDefaultAndNamespaceImportRecordAsCodeString :: "ImportRecord \<Rightarrow> string" where
  "getDefaultAndNamespaceImportRecordAsCodeString r =
    ''import '' @ toStr (defaultImport r) @ '', * as '' @ toStr (namespaceImport r)
      @ '' from '' @ sq @ path r @ sq @ '';''"

definition getNamespaceImportRecordAsCodeString :: "ImportRecord \<Rightarrow> string" where
  "getNamespaceImportRecordAsCodeString r =
    ''import * as '' @ toStr (namespaceImport r) @ '' from '' @ sq @ path r @ sq @ '';''"

definition getSingleImportRecordAsCodeString :: "ImportRecord \<Rightarrow> string" where
  "getSingleImportRecordAsCodeString r =
    (let singleImportStrings = map getSingleImportAsCodeString (singleImports r)
     in ''import { '' @ join '', '' singleImportStrings
          @ '' } from '' @ sq @ path r @ sq @ '';'')"

definition getImportRecordAsCodeString :: "ImportRecord \<Rightarrow> string" where
  "getImportRecordAsCodeString importRecord =
    (let hasSingleImports = (length (singleImports importRecord) > 0);
         d = truthy (defaultImport importRecord);
         n = truthy (namespaceImport importRecord)
     in if d \<and> \<not> n \<and> \<not> hasSingleImports then getDefaultImportRecordAsCodeString importRecord
        else if d \<and> n then getDefaultAndNamespaceImportRecordAsCodeString importRecord
        else if d \<and> hasSingleImports then getDefaultAndSingleImportRecordAsCodeString importRecord
        else if n then getNamespaceImportRecordAsCodeString importRecord
        else if hasSingleImports then getSingleImportRecordAsCodeString importRecord
        else [])"

subsection \<open>Weights\<close>

text \<open>
  The two nested \<^verbatim>\<open>for\<close> loops of \<^verbatim>\<open>getImportWeight\<close>: \<open>scanPatterns\<close> is the inner loop
  over one group's patterns from index \<open>j\<close> on, \<open>scanGroups\<close> the outer loop over the groups
  from index \<open>i\<close> on. Each returns the indices at which the loop body returns.
\<close>

fun scanPatterns :: "(string \<Rightarrow> string \<Rightarrow> bool) \<Rightarrow> string \<Rightarrow> string list \<Rightarrow> nat \<Rightarrow> nat option" where
  "scanPatterns isMatch p [] j = None"
| "scanPatterns isMatch p (pat # pats) j =
    (if isMatch p pat then Some j else scanPatterns isMatch p pats (Suc j))"

fun scanGroups :: "(string \<Rightarrow> string \<Rightarrow> bool) \<Rightarrow> string \<Rightarrow> string list list \<Rightarrow> nat \<Rightarrow> (nat \<times> nat) option" where
  "scanGroups isMatch p [] i = None"
| "scanGroups isMatch p (g # gs) i =
    (case scanPatterns isMatch p g 0 of
       Some j \<Rightarrow> Some (i, j)
     | None \<Rightarrow> scanGroups isMatch p gs (Suc i))"

text \<open>
  \<^verbatim>\<open>defaultImport || namespaceImport || singleImports[0].alias\<close>: reading \<^verbatim>\<open>alias\<close> of
  \<^verbatim>\<open>singleImports[0]\<close> throws a TypeError when the array is empty.
\<close>

definition weightName :: "string option \<Rightarrow> string option \<Rightarrow> SingleImport list \<Rightarrow> error + string" where
  "weightName d n sis =
    (if truthy d then Inr (toStr d)
     else if truthy n then Inr (toStr n)
     else (case sis of [] \<Rightarrow> Inl TypeError | s # _ \<Rightarrow> Inr (si_alias s)))"

definition typeWeight :: "string option \<Rightarrow> string option \<Rightarrow> nat" where
  "typeWeight d n = (if truthy d then 0 else if truthy n then 1 else 2)"

definition getImportWeight ::
  "(string \<Rightarrow> string \<Rightarrow> bool) \<Rightarrow> string list list \<Rightarrow>
   string option \<Rightarrow> string option \<Rightarrow> SingleImport list \<Rightarrow> string \<Rightarrow> error + ImportWeight" where
  "getImportWeight isMatch gs d n sis p =
    (case scanGroups isMatch p gs 0 of
       Some (i, j) \<Rightarrow>
         (case weightName d n sis of
            Inl e \<Rightarrow> Inl e
          | Inr nm \<Rightarrow> Inr \<lparr>w_group = i, w_pattern = j, w_type = typeWeight d n, w_name = nm\<rparr>)
     | None \<Rightarrow> Inr \<lparr>w_group = 0, w_pattern = 0, w_type = 0, w_name = []\<rparr>)"

definition getNumericImportWeight :: "ImportWeight \<Rightarrow> nat" where
  "getNumericImportWeight w = 1000000 * w_group w + 1000 * w_pattern w + w_type w"

subsection \<open>Building a record from an import declaration\<close>

definition createImportRecord ::
  "(string \<Rightarrow> string \<Rightarrow> bool) \<Rightarrow> string list list \<Rightarrow> ImportNode \<Rightarrow> error + ImportRecord" where
  "createImportRecord isMatch gs importNode =
    (let specifiers = n_specifiers importNode;
         d = pop (map sp_local_name (filter (\<lambda>s. sp_type s = ImportDefaultSpecifier) specifiers));
         n = pop (map sp_local_name (filter (\<lambda>s. sp_type s = ImportNamespaceSpecifier) specifiers));
         sis = map (\<lambda>s. \<lparr>si_name = sp_imported_name s, si_alias = sp_local_name s\<rparr>)
                 (filter (\<lambda>s. sp_type s = ImportSpecifier) specifiers);
         p = n_source_value importNode
     in case getImportWeight isMatch gs d n sis p of
          Inl e \<Rightarrow> Inl e
        | Inr w \<Rightarrow> Inr \<lparr>defaultImport = d, namespaceImport = n, singleImports = sis,
                        path = p, weight = w, node = importNode\<rparr>)"

subsection \<open>Comparing weights and validating the order\<close>

definition areImportWeightsSequential :: "ImportWeight \<Rightarrow> ImportWeight \<Rightarrow> bool" where
  "areImportWeightsSequential weightA weightB =
    (let numericWeightA = getNumericImportWeight weightA;
         numericWeightB = getNumericImportWeight weightB
     in if numericWeightA < numericWeightB then True
        else if numericWeightA = numericWeightB then w_name weightA < w_name weightB
        else False)"

definition areImportWeightsEqual :: "ImportWeight \<Rightarrow> ImportWeight \<Rightarrow> bool" where
  "areImportWeightsEqual weightA weightB =
    (w_group weightA = w_group weightB \<and>
     w_pattern weightA = w_pattern weightB \<and>
     w_type weightA = w_type weightB \<and>
     w_name weightA = w_name weightB)"

text \<open>
  The loop of \<^verbatim>\<open>areImportRecordsCorrectlyGrouped\<close> over the adjacent pairs, first pair first;
  \<open>lbl\<close> is \<^verbatim>\<open>LINE_BREAK_LENGTH\<close>.
\<close>

fun areImportRecordsCorrectlyGrouped :: "int \<Rightarrow> ImportRecord list \<Rightarrow> bool" where
  "areImportRecordsCorrectlyGrouped lbl (currentImportRecord # nextImportRecord # rest) =
    (if \<not> areImportWeightsSequential (weight currentImportRecord) (weight nextImportRecord)
     then False
     else if w_group (weight currentImportRecord) < w_group (weight nextImportRecord) \<and>
             n_start (node nextImportRecord) - n_end (node currentImportRecord) < lbl * 2
     then False
     else areImportRecordsCorrectlyGrouped lbl (nextImportRecord # rest))"
| "areImportRecordsCorrectlyGrouped lbl importRecords = True"

subsection \<open>Regenerating the import block\<close>

text \<open>The comparator handed to \<^verbatim>\<open>sort\<close> in \<^verbatim>\<open>getFixedImportRecords\<close>.\<close>

definition compareImportRecords :: "ImportRecord \<Rightarrow> ImportRecord \<Rightarrow> int" where
  "compareImportRecords recordA recordB =
    (if areImportWeightsEqual (weight recordA) (weight recordB) then 0
     else if areImportWeightsSequential (weight recordA) (weight recordB) then - 1 else 1)"

text \<open>
  \<^verbatim>\<open>Array.prototype.sort\<close> with a comparator is a stable sort; it is modelled as the stable
  insertion sort that puts an element before the first element it does not compare
  greater than.
\<close>

fun insertBy :: "('a \<Rightarrow> 'a \<Rightarrow> int) \<Rightarrow> 'a \<Rightarrow> 'a list \<Rightarrow> 'a list" where
  "insertBy cmp x [] = [x]"
| "insertBy cmp x (y # ys) = (if cmp x y \<le> 0 then x # y # ys else y # insertBy cmp x ys)"

definition sortBy :: "('a \<Rightarrow> 'a \<Rightarrow> int) \<Rightarrow> 'a list \<Rightarrow> 'a list" where
  "sortBy cmp xs = foldr (insertBy cmp) xs []"

text \<open>
  The \<^verbatim>\<open>map\<close> over the sorted records: a record followed by a record of another group gets a
  line feed appended.
\<close>

fun fixedCodeStrings :: "ImportRecord list \<Rightarrow> string list" where
  "fixedCodeStrings [] = []"
| "fixedCodeStrings [importRecord] = [getImportRecordAsCodeString importRecord]"
| "fixedCodeStrings (importRecord # nextImportRecord # rest) =
    (if w_group (weight nextImportRecord) = w_group (weight importRecord)
     then getImportRecordAsCodeString importRecord
     else getImportRecordAsCodeString importRecord @ lf)
    # fixedCodeStrings (nextImportRecord # rest)"

definition getFixedImportRecords :: "ImportRecord list \<Rightarrow> string" where
  "getFixedImportRecords importRecords =
    (let sortedImportRecords = sortBy compareImportRecords importRecords
     in join lf (fixedCodeStrings sortedImportRecords))"

subsection \<open>The rule's entry point\<close>

text \<open>
  \<^verbatim>\<open>importNodes.map(createImportRecord)\<close>: the first declaration whose record cannot be
  built ends the pass with its error.
\<close>

fun createImportRecords ::
  "(string \<Rightarrow> string \<Rightarrow> bool) \<Rightarrow> string list list \<Rightarrow> ImportNode list \<Rightarrow> error + ImportRecord list" where
  "createImportRecords isMatch gs [] = Inr []"
| "createImportRecords isMatch gs (importNode # rest) =
    (case createImportRecord isMatch gs importNode of
       Inl e \<Rightarrow> Inl e
     | Inr r \<Rightarrow> (case createImportRecords isMatch gs rest of
                   Inl e \<Rightarrow> Inl e
                 | Inr rs \<Rightarrow> Inr (r # rs)))"

text \<open>
  The \<^verbatim>\<open>Program\<close> handler on the import declarations of a file, in source order. It
  reports nothing (\<^term>\<open>None\<close>) for a file without imports or with imports the validator
  accepts; otherwise it reports one diagnostic over the range from the start of the first
  declaration to the end of the last, whose fix replaces that range by the regenerated text.
\<close>

record report =
  range_start :: int
  range_end :: int
  fix_text :: string

definition Program ::
  "(string \<Rightarrow> string \<Rightarrow> bool) \<Rightarrow> string list list \<Rightarrow> platform \<Rightarrow> ImportNode list \<Rightarrow>
   error + report option" where
  "Program isMatch gs pf importNodes =
    (if importNodes = [] then Inr None
     else case createImportRecords isMatch gs importNodes of
            Inl e \<Rightarrow> Inl e
          | Inr importRecords \<Rightarrow>
              if \<not> areImportRecordsCorrectlyGrouped (LINE_BREAK_LENGTH pf) importRecords
              then Inr (Some \<lparr>range_start = n_start (hd importNodes),
                               range_end = n_end (last importNodes),
                               fix_text = getFixedImportRecords importRecords\<rparr>)
              else Inr None)"

subsection \<open>Auxiliary definitions for stating and exercising the properties\<close>

text \<open>
  The weight \<^verbatim>\<open>getImportWeight\<close> returns after its loops found no match.
\<close>

definition degenerateWeight :: ImportWeight where
  "degenerateWeight = \<lparr>w_group = 0, w_pattern = 0, w_type = 0, w_name = []\<rparr>"

text \<open>
  An instance of the matcher parameter for concrete evaluations: a pattern of literal
  characters and \<open>*\<close>, where \<open>*\<close> stands for any run of characters other than \<open>/\<close>. It is
  not a model of micromatch (no \<open>**\<close>, no extglobs); the theorems below hold for every
  matcher, and this one only supplies concrete inputs for them.
\<close>

fun globMatch :: "string \<Rightarrow> string \<Rightarrow> bool" where
  "globMatch [] [] = True"
| "globMatch (c # cs) [] = False"
| "globMatch s (q # qs) =
    (if q = CHR ''*''
     then globMatch s qs \<or> (case s of [] \<Rightarrow> False | c # cs \<Rightarrow> c \<noteq> CHR ''/'' \<and> globMatch cs (q # qs))
     else (case s of [] \<Rightarrow> False | c # cs \<Rightarrow> c = q \<and> globMatch cs qs))"

text \<open>
  The two checks the body of the validator's loop makes on one adjacent pair.
\<close>

definition pairInOrder :: "int \<Rightarrow> ImportRecord \<Rightarrow> ImportRecord \<Rightarrow> bool" where
  "pairInOrder lbl a b \<longleftrightarrow>
     areImportWeightsSequential (weight a) (weight b) \<and>
     \<not> (w_group (weight a) < w_group (weight b) \<and> n_start (node b) - n_end (node a) < lbl * 2)"

text \<open>
  The key that a stable sort by the comparator sorts by, when pattern index and type are
  both below 1000 (\<open>inRange\<close>): the numeric weight first, the name second.
\<close>

definition orderingKey :: "ImportRecord \<Rightarrow> nat \<times> string" where
  "orderingKey r = (getNumericImportWeight (weight r), w_name (weight r))"

definition inRange :: "ImportRecord \<Rightarrow> bool" where
  "inRange r \<longleftrightarrow> w_pattern (weight r) < 1000 \<and> w_type (weight r) < 1000"

text \<open>
  Example inputs: the node of the declaration \<open>import nm from 'p';\<close> placed at \<open>offset\<close>
  in the file, and the record built for it when its weight is \<open>w\<close>.
\<close>

definition defaultImportNode :: "int \<Rightarrow> string \<Rightarrow> string \<Rightarrow> ImportNode" where
  "defaultImportNode offset nm p =
    \<lparr>n_start = offset,
     n_end = offset + int (length (''import '' @ nm @ '' from '' @ sq @ p @ sq @ '';'')),
     n_specifiers = [\<lparr>sp_type = ImportDefaultSpecifier, sp_imported_name = [], sp_local_name = nm\<rparr>],
     n_source_value = p\<rparr>"

definition defaultImportRecord :: "int \<Rightarrow> string \<Rightarrow> string \<Rightarrow> ImportWeight \<Rightarrow> ImportRecord" where
  "defaultImportRecord offset nm p w =
    \<lparr>defaultImport = Some nm, namespaceImport = None, singleImports = [], path = p,
     weight = w, node = defaultImportNode offset nm p\<rparr>"

section \<open>Properties\<close>

subsection \<open>Rendering\<close>

text \<open>
  C9. A record with no default import, no namespace import and an empty list of named
  imports is rendered as the empty string; the renderer is a total function, so nothing
  is thrown.
\<close>

theorem malformed_record_renders_empty:
  "\<not> truthy (defaultImport r) \<Longrightarrow> \<not> truthy (namespaceImport r) \<Longrightarrow> singleImports r = [] \<Longrightarrow>
   getImportRecordAsCodeString r = []"
  by (simp add: getImportRecordAsCodeString_def)

theorem malformed_record_renders_empty_witness:
  "getImportRecordAsCodeString
     \<lparr>defaultImport = None, namespaceImport = None, singleImports = [], path = ''react'',
      weight = \<lparr>w_group = 0, w_pattern = 0, w_type = 0, w_name = []\<rparr>,
      node = \<lparr>n_start = 0, n_end = 15, n_specifiers = [], n_source_value = ''react''\<rparr>\<rparr> = []"
  using malformed_record_renders_empty
    [of "\<lparr>defaultImport = None, namespaceImport = None, singleImports = [], path = ''react'',
      weight = \<lparr>w_group = 0, w_pattern = 0, w_type = 0, w_name = []\<rparr>,
      node = \<lparr>n_start = 0, n_end = 15, n_specifiers = [], n_source_value = ''react''\<rparr>\<rparr>"]
  by simp

subsection \<open>Weights: first match, no match\<close>

lemma scanPatterns_first:
  "j < length ps \<Longrightarrow> isMatch p (ps ! j) \<Longrightarrow> \<forall>j'<j. \<not> isMatch p (ps ! j') \<Longrightarrow>
   scanPatterns isMatch p ps k = Some (k + j)"
proof (induction ps arbitrary: j k)
  case Nil
  then show ?case by simp
next
  case (Cons a ps)
  show ?case
  proof (cases j)
    case 0
    with Cons.prems show ?thesis by simp
  next
    case (Suc j0)
    from Cons.prems Suc have "\<not> isMatch p a" by auto
    moreover have "scanPatterns isMatch p ps (Suc k) = Some (Suc k + j0)"
      using Cons.prems Suc by (intro Cons.IH) auto
    ultimately show ?thesis using Suc by simp
  qed
qed

lemma scanPatterns_none:
  "\<forall>j<length ps. \<not> isMatch p (ps ! j) \<Longrightarrow> scanPatterns isMatch p ps k = None"
proof (induction ps arbitrary: k)
  case Nil
  then show ?case by simp
next
  case (Cons a ps)
  from Cons.prems have "\<not> isMatch p a" by auto
  moreover have "scanPatterns isMatch p ps (Suc k) = None"
    using Cons.prems by (intro Cons.IH) auto
  ultimately show ?case by simp
qed

lemma scanGroups_first:
  "i < length gs \<Longrightarrow> scanPatterns isMatch p (gs ! i) 0 = Some j \<Longrightarrow>
   \<forall>i'<i. scanPatterns isMatch p (gs ! i') 0 = None \<Longrightarrow>
   scanGroups isMatch p gs k = Some (k + i, j)"
proof (induction gs arbitrary: i k)
  case Nil
  then show ?case by simp
next
  case (Cons g gs)
  show ?case
  proof (cases i)
    case 0
    with Cons.prems show ?thesis by simp
  next
    case (Suc i0)
    from Cons.prems Suc have "scanPatterns isMatch p g 0 = None" by auto
    moreover have "scanGroups isMatch p gs (Suc k) = Some (Suc k + i0, j)"
      using Cons.prems Suc by (intro Cons.IH) auto
    ultimately show ?thesis using Suc by simp
  qed
qed

lemma scanGroups_none:
  "\<forall>i<length gs. scanPatterns isMatch p (gs ! i) 0 = None \<Longrightarrow> scanGroups isMatch p gs k = None"
proof (induction gs arbitrary: k)
  case Nil
  then show ?case by simp
next
  case (Cons g gs)
  from Cons.prems have "scanPatterns isMatch p g 0 = None" by auto
  moreover have "scanGroups isMatch p gs (Suc k) = None"
    using Cons.prems by (intro Cons.IH) auto
  ultimately show ?case by simp
qed

text \<open>
  C5. First match wins: when \<open>(i, j)\<close> is the first pair, in the order groups first and
  patterns second, whose pattern matches the path, the weight carries group \<open>i\<close> and
  pattern \<open>j\<close>. In particular, with the single group \<open>['a/*', 'a/b']\<close> and the path
  \<open>a/b\<close>, under any matcher for which \<open>a/*\<close> matches \<open>a/b\<close>, the pattern index is 0.
\<close>

theorem first_match_wins:
  "(i < length gs \<and> j < length (gs ! i) \<and> isMatch p (gs ! i ! j) \<and>
    (\<forall>j'<j. \<not> isMatch p (gs ! i ! j')) \<and>
    (\<forall>i'<i. \<forall>j'<length (gs ! i'). \<not> isMatch p (gs ! i' ! j')) \<and>
    weightName d n sis = Inr nm
    \<longrightarrow> getImportWeight isMatch gs d n sis p =
          Inr \<lparr>w_group = i, w_pattern = j, w_type = typeWeight d n, w_name = nm\<rparr>)
   \<and>
   (isMatch ''a/b'' ''a/*'' \<and> weightName d n sis = Inr nm
    \<longrightarrow> getImportWeight isMatch [[''a/*'', ''a/b'']] d n sis ''a/b'' =
          Inr \<lparr>w_group = 0, w_pattern = 0, w_type = typeWeight d n, w_name = nm\<rparr>)"
proof (intro conjI impI)
  assume a: "i < length gs \<and> j < length (gs ! i) \<and> isMatch p (gs ! i ! j) \<and>
    (\<forall>j'<j. \<not> isMatch p (gs ! i ! j')) \<and>
    (\<forall>i'<i. \<forall>j'<length (gs ! i'). \<not> isMatch p (gs ! i' ! j')) \<and>
    weightName d n sis = Inr nm"
  then have "scanPatterns isMatch p (gs ! i) 0 = Some (0 + j)"
    by (intro scanPatterns_first) auto
  moreover have "\<forall>i'<i. scanPatterns isMatch p (gs ! i') 0 = None"
    using a by (auto intro: scanPatterns_none)
  ultimately have "scanGroups isMatch p gs 0 = Some (0 + i, j)"
    using a by (intro scanGroups_first) auto
  with a show "getImportWeight isMatch gs d n sis p =
          Inr \<lparr>w_group = i, w_pattern = j, w_type = typeWeight d n, w_name = nm\<rparr>"
    by (simp add: getImportWeight_def)
next
  assume "isMatch ''a/b'' ''a/*'' \<and> weightName d n sis = Inr nm"
  then show "getImportWeight isMatch [[''a/*'', ''a/b'']] d n sis ''a/b'' =
          Inr \<lparr>w_group = 0, w_pattern = 0, w_type = typeWeight d n, w_name = nm\<rparr>"
    by (simp add: getImportWeight_def)
qed

theorem first_match_wins_witness:
  "getImportWeight globMatch [[''a/*'', ''a/b'']] None None [\<lparr>si_name = ''x'', si_alias = ''y''\<rparr>] ''a/b'' =
     Inr \<lparr>w_group = 0, w_pattern = 0, w_type = 2, w_name = ''y''\<rparr>
   \<and> getImportWeight globMatch [[''q''], [''a/c'', ''a/b'', ''a/*'']] (Some ''D'') None [] ''a/b'' =
     Inr \<lparr>w_group = 1, w_pattern = 1, w_type = 0, w_name = ''D''\<rparr>"
proof -
  have w1: "weightName None None [\<lparr>si_name = ''x'', si_alias = ''y''\<rparr>] = Inr ''y''"
    by (simp add: weightName_def)
  have w2: "weightName (Some ''D'') None [] = Inr ''D''"
    by (simp add: weightName_def)
  have m: "globMatch ''a/b'' ''a/*''" by simp
  have t1: "typeWeight None None = 2" by (simp add: typeWeight_def)
  have t2: "typeWeight (Some ''D'') None = 0" by (simp add: typeWeight_def)
  have h2: "(1::nat) < length [[''q''], [''a/c'', ''a/b'', ''a/*'']] \<and>
      (1::nat) < length ([[''q''], [''a/c'', ''a/b'', ''a/*'']] ! 1) \<and>
      globMatch ''a/b'' ([[''q''], [''a/c'', ''a/b'', ''a/*'']] ! 1 ! 1) \<and>
      (\<forall>j'<1. \<not> globMatch ''a/b'' ([[''q''], [''a/c'', ''a/b'', ''a/*'']] ! 1 ! j')) \<and>
      (\<forall>i'<1. \<forall>j'<length ([[''q''], [''a/c'', ''a/b'', ''a/*'']] ! i').
          \<not> globMatch ''a/b'' ([[''q''], [''a/c'', ''a/b'', ''a/*'']] ! i' ! j'))"
    by simp
  from first_match_wins [of 0 "[]" 0 globMatch "[]" None None "[\<lparr>si_name = ''x'', si_alias = ''y''\<rparr>]" "''y''"] w1 m t1
  have a: "getImportWeight globMatch [[''a/*'', ''a/b'']] None None [\<lparr>si_name = ''x'', si_alias = ''y''\<rparr>] ''a/b'' =
     Inr \<lparr>w_group = 0, w_pattern = 0, w_type = 2, w_name = ''y''\<rparr>" by simp
  from first_match_wins [of 1 "[[''q''], [''a/c'', ''a/b'', ''a/*'']]" 1 globMatch "''a/b''" "Some ''D''" None "[]" "''D''"] w2 h2 t2
  have b: "getImportWeight globMatch [[''q''], [''a/c'', ''a/b'', ''a/*'']] (Some ''D'') None [] ''a/b'' =
     Inr \<lparr>w_group = 1, w_pattern = 1, w_type = 0, w_name = ''D''\<rparr>" by simp
  from a b show ?thesis by simp
qed

lemma scanPatterns_None_iff:
  "scanPatterns isMatch p ps k = None \<longleftrightarrow> (\<forall>pat\<in>set ps. \<not> isMatch p pat)"
  by (induction ps arbitrary: k) auto

lemma scanGroups_None_iff:
  "scanGroups isMatch p gs k = None \<longleftrightarrow> (\<forall>g\<in>set gs. \<forall>pat\<in>set g. \<not> isMatch p pat)"
proof (induction gs arbitrary: k)
  case Nil
  then show ?case by simp
next
  case (Cons g gs)
  show ?case
  proof (cases "scanPatterns isMatch p g 0")
    case None
    then have "\<forall>pat\<in>set g. \<not> isMatch p pat" by (simp add: scanPatterns_None_iff)
    with None Cons.IH [of "Suc k"] show ?thesis by simp
  next
    case (Some j)
    then have "\<not> (\<forall>pat\<in>set g. \<not> isMatch p pat)"
      using scanPatterns_None_iff [of isMatch p g 0] by simp
    with Some show ?thesis by auto
  qed
qed

lemma Nil_less_iff: "([] :: string) < s \<longleftrightarrow> s \<noteq> []"
  by (cases s) simp_all

lemma compare_degenerate_le:
  "weight a = degenerateWeight \<Longrightarrow> compareImportRecords a b \<le> 0"
  by (cases "weight b")
     (auto simp: compareImportRecords_def areImportWeightsEqual_def areImportWeightsSequential_def
        getNumericImportWeight_def degenerateWeight_def Let_def Nil_less_iff)

lemma compare_to_degenerate:
  "weight a \<noteq> degenerateWeight \<Longrightarrow> weight b = degenerateWeight \<Longrightarrow> compareImportRecords a b = 1"
  by (cases "weight a")
     (auto simp: compareImportRecords_def areImportWeightsEqual_def areImportWeightsSequential_def
        getNumericImportWeight_def degenerateWeight_def Let_def)

lemma set_insertBy: "set (insertBy cmp x ys) = insert x (set ys)"
  by (induction ys) auto

lemma set_sortBy: "set (sortBy cmp xs) = set xs"
  by (induction xs) (auto simp: sortBy_def set_insertBy)

lemma mset_insertBy: "mset (insertBy cmp x ys) = add_mset x (mset ys)"
  by (induction ys) auto

lemma mset_sortBy: "mset (sortBy cmp xs) = mset xs"
  by (induction xs) (auto simp: sortBy_def mset_insertBy)

lemma length_sortBy: "length (sortBy cmp xs) = length xs"
  by (metis mset_sortBy size_mset)

text \<open>
  The strings the regenerator joins: one per record of the sorted list, in order; the
  rendering of the record, followed by a line feed where the next record is of another
  group.
\<close>

lemma fixedCodeStrings_length: "length (fixedCodeStrings rs) = length rs"
  by (induction rs rule: fixedCodeStrings.induct) auto

lemma fixedCodeStrings_nth:
  "i < length rs \<Longrightarrow>
   fixedCodeStrings rs ! i =
     getImportRecordAsCodeString (rs ! i) @
       (if Suc i < length rs \<and> w_group (weight (rs ! Suc i)) \<noteq> w_group (weight (rs ! i))
        then lf else [])"
proof (induction rs arbitrary: i rule: fixedCodeStrings.induct)
  case 1
  then show ?case by simp
next
  case (2 importRecord)
  then show ?case by simp
next
  case (3 importRecord nextImportRecord rest)
  show ?case
  proof (cases i)
    case 0
    then show ?thesis by simp
  next
    case (Suc k)
    with "3.prems" have "k < length (nextImportRecord # rest)" by simp
    from "3.IH" [OF this] Suc show ?thesis by simp
  qed
qed

lemma fixedCodeStrings_sortBy:
  "length (fixedCodeStrings (sortBy cmp rs)) = length rs \<and>
   (\<forall>i<length rs. fixedCodeStrings (sortBy cmp rs) ! i =
      getImportRecordAsCodeString (sortBy cmp rs ! i) @
        (if Suc i < length rs \<and>
            w_group (weight (sortBy cmp rs ! Suc i)) \<noteq> w_group (weight (sortBy cmp rs ! i))
         then lf else []))"
  using fixedCodeStrings_nth [of _ "sortBy cmp rs"]
  by (simp add: fixedCodeStrings_length length_sortBy)

lemma insertBy_degenerate_first:
  assumes "sorted_wrt (\<lambda>a b. weight b = degenerateWeight \<longrightarrow> weight a = degenerateWeight) ys"
  shows "sorted_wrt (\<lambda>a b. weight b = degenerateWeight \<longrightarrow> weight a = degenerateWeight)
           (insertBy compareImportRecords x ys)"
  using assms
proof (induction ys)
  case Nil
  then show ?case by simp
next
  case (Cons y ys)
  show ?case
  proof (cases "compareImportRecords x y \<le> 0")
    case True
    have "weight x \<noteq> degenerateWeight \<Longrightarrow> weight y \<noteq> degenerateWeight"
      using True compare_to_degenerate [of x y] by auto
    with Cons.prems True show ?thesis by auto
  next
    case False
    then have "weight x \<noteq> degenerateWeight"
      using compare_degenerate_le [of x y] by auto
    with Cons False show ?thesis by (auto simp: set_insertBy)
  qed
qed

lemma sortBy_degenerate_first:
  "sorted_wrt (\<lambda>a b. weight b = degenerateWeight \<longrightarrow> weight a = degenerateWeight)
     (sortBy compareImportRecords rs)"
proof (induction rs)
  case Nil
  then show ?case by (simp add: sortBy_def)
next
  case (Cons r rs)
  then show ?case using insertBy_degenerate_first [of "sortBy compareImportRecords rs" r]
    by (simp add: sortBy_def)
qed

lemma getImportWeight_unmatched:
  assumes "\<forall>i<length gs. \<forall>j<length (gs ! i). \<not> isMatch p (gs ! i ! j)"
  shows "getImportWeight isMatch gs d n sis p = Inr degenerateWeight"
proof -
  have "\<forall>g\<in>set gs. \<forall>pat\<in>set g. \<not> isMatch p pat"
    using assms by (metis in_set_conv_nth)
  then have "scanGroups isMatch p gs 0 = None" by (simp add: scanGroups_None_iff)
  then show ?thesis by (simp add: getImportWeight_def degenerateWeight_def)
qed

lemma getImportWeight_matched_not_degenerate:
  assumes "i < length gs" "j < length (gs ! i)" "isMatch p (gs ! i ! j)"
    and "getImportWeight isMatch gs d n sis p = Inr w"
  shows "w \<noteq> degenerateWeight"
proof -
  have "\<not> (\<forall>g\<in>set gs. \<forall>pat\<in>set g. \<not> isMatch p pat)"
    using assms(1-3) by (meson nth_mem)
  then obtain a b where s: "scanGroups isMatch p gs 0 = Some (a, b)"
    using scanGroups_None_iff [of isMatch p gs 0] by (cases "scanGroups isMatch p gs 0") auto
  show ?thesis
  proof (cases "truthy d")
    case True
    then have "toStr d \<noteq> []" by (cases d) auto
    with assms(4) s True show ?thesis
      by (auto simp: getImportWeight_def weightName_def degenerateWeight_def)
  next
    case False
    with assms(4) s show ?thesis
      by (auto simp: getImportWeight_def weightName_def typeWeight_def degenerateWeight_def
          split: if_splits list.splits)
  qed
qed

text \<open>
  C6. Unmatched paths: when no pattern of any group matches the path of a declaration,
  the weight is group 0, pattern 0, type 0 and the empty name, and building the record
  returns a record (nothing is thrown). The regenerated text joins, by line feeds, one
  string per record of the sorted list, in order (the record's rendering, with a line feed
  appended where the next record is of another group); the sorted list holds exactly the
  records supplied, and in it no record of another weight comes before a record of this
  weight; no matched record has this weight. So unmatched imports come first in the
  regenerated block.
\<close>

theorem unmatched_path_convention:
  assumes "\<forall>i<length gs. \<forall>j<length (gs ! i). \<not> isMatch (n_source_value nd) (gs ! i ! j)"
  shows "getImportWeight isMatch gs d n sis (n_source_value nd) =
           Inr \<lparr>w_group = 0, w_pattern = 0, w_type = 0, w_name = []\<rparr>
       \<and> (\<exists>r. createImportRecord isMatch gs nd = Inr r \<and> weight r = degenerateWeight)
       \<and> getFixedImportRecords rs = join lf (fixedCodeStrings (sortBy compareImportRecords rs))
       \<and> length (fixedCodeStrings (sortBy compareImportRecords rs)) = length rs
       \<and> (\<forall>i<length rs. fixedCodeStrings (sortBy compareImportRecords rs) ! i =
            getImportRecordAsCodeString (sortBy compareImportRecords rs ! i) @
              (if Suc i < length rs \<and>
                  w_group (weight (sortBy compareImportRecords rs ! Suc i))
                    \<noteq> w_group (weight (sortBy compareImportRecords rs ! i))
               then lf else []))
       \<and> mset (sortBy compareImportRecords rs) = mset rs
       \<and> sorted_wrt (\<lambda>a b. weight b = degenerateWeight \<longrightarrow> weight a = degenerateWeight)
            (sortBy compareImportRecords rs)
       \<and> (\<forall>i j p' d' n' sis' w. i < length gs \<and> j < length (gs ! i) \<and> isMatch p' (gs ! i ! j) \<and>
             getImportWeight isMatch gs d' n' sis' p' = Inr w \<longrightarrow> w \<noteq> degenerateWeight)"
proof (intro conjI)
  show "getImportWeight isMatch gs d n sis (n_source_value nd) =
           Inr \<lparr>w_group = 0, w_pattern = 0, w_type = 0, w_name = []\<rparr>"
    using getImportWeight_unmatched [of gs isMatch "n_source_value nd" d n sis] assms
    by (simp add: degenerateWeight_def)
  show "\<exists>r. createImportRecord isMatch gs nd = Inr r \<and> weight r = degenerateWeight"
    using assms by (simp add: createImportRecord_def Let_def getImportWeight_unmatched)
  show "getFixedImportRecords rs = join lf (fixedCodeStrings (sortBy compareImportRecords rs))"
    by (simp add: getFixedImportRecords_def)
  show "length (fixedCodeStrings (sortBy compareImportRecords rs)) = length rs"
    using fixedCodeStrings_sortBy [of compareImportRecords rs] by blast
  show "\<forall>i<length rs. fixedCodeStrings (sortBy compareImportRecords rs) ! i =
            getImportRecordAsCodeString (sortBy compareImportRecords rs ! i) @
              (if Suc i < length rs \<and>
                  w_group (weight (sortBy compareImportRecords rs ! Suc i))
                    \<noteq> w_group (weight (sortBy compareImportRecords rs ! i))
               then lf else [])"
    using fixedCodeStrings_sortBy [of compareImportRecords rs] by blast
  show "mset (sortBy compareImportRecords rs) = mset rs"
    by (rule mset_sortBy)
  show "sorted_wrt (\<lambda>a b. weight b = degenerateWeight \<longrightarrow> weight a = degenerateWeight)
            (sortBy compareImportRecords rs)"
    by (rule sortBy_degenerate_first)
  show "\<forall>i j p' d' n' sis' w. i < length gs \<and> j < length (gs ! i) \<and> isMatch p' (gs ! i ! j) \<and>
             getImportWeight isMatch gs d' n' sis' p' = Inr w \<longrightarrow> w \<noteq> degenerateWeight"
    using getImportWeight_matched_not_degenerate by blast
qed

lemma groups_unmatched_local:
  "\<forall>i<length groups. \<forall>j<length (groups ! i). \<not> globMatch ''./local'' (groups ! i ! j)"
  by (simp add: groups_def All_less_Suc numeral_eq_Suc)

theorem unmatched_path_convention_witness:
  "getImportWeight globMatch groups (Some ''local'') None [] ''./local'' =
       Inr \<lparr>w_group = 0, w_pattern = 0, w_type = 0, w_name = []\<rparr>
   \<and> (\<exists>r. createImportRecord globMatch groups (defaultImportNode 27 ''local'' ''./local'') = Inr r
          \<and> weight r = degenerateWeight)
   \<and> createImportRecord globMatch groups (defaultImportNode 0 ''React'' ''react'') =
       Inr (defaultImportRecord 0 ''React'' ''react''
              \<lparr>w_group = 0, w_pattern = 0, w_type = 0, w_name = ''React''\<rparr>)
   \<and> createImportRecord globMatch groups (defaultImportNode 27 ''local'' ''./local'') =
       Inr (defaultImportRecord 27 ''local'' ''./local'' degenerateWeight)
   \<and> sortBy compareImportRecords
       [defaultImportRecord 0 ''React'' ''react''
          \<lparr>w_group = 0, w_pattern = 0, w_type = 0, w_name = ''React''\<rparr>,
        defaultImportRecord 27 ''local'' ''./local'' degenerateWeight]
     = [defaultImportRecord 27 ''local'' ''./local'' degenerateWeight,
        defaultImportRecord 0 ''React'' ''react''
          \<lparr>w_group = 0, w_pattern = 0, w_type = 0, w_name = ''React''\<rparr>]
   \<and> getFixedImportRecords
       [defaultImportRecord 0 ''React'' ''react''
          \<lparr>w_group = 0, w_pattern = 0, w_type = 0, w_name = ''React''\<rparr>,
        defaultImportRecord 27 ''local'' ''./local'' degenerateWeight]
     = ''import local from '' @ sq @ ''./local'' @ sq @ '';'' @ lf
       @ ''import React from '' @ sq @ ''react'' @ sq @ '';''"
proof -
  let ?react = "defaultImportRecord 0 ''React'' ''react''
          \<lparr>w_group = 0, w_pattern = 0, w_type = 0, w_name = ''React''\<rparr>"
  let ?local = "defaultImportRecord 27 ''local'' ''./local'' degenerateWeight"
  have h: "\<forall>i<length groups. \<forall>j<length (groups ! i).
      \<not> globMatch (n_source_value (defaultImportNode 27 ''local'' ''./local'')) (groups ! i ! j)"
    using groups_unmatched_local by (simp add: defaultImportNode_def)
  have u: "getImportWeight globMatch groups (Some ''local'') None []
        (n_source_value (defaultImportNode 27 ''local'' ''./local''))
      = Inr \<lparr>w_group = 0, w_pattern = 0, w_type = 0, w_name = []\<rparr>
    \<and> (\<exists>r. createImportRecord globMatch groups (defaultImportNode 27 ''local'' ''./local'') = Inr r
          \<and> weight r = degenerateWeight)
    \<and> getFixedImportRecords [?react, ?local]
        = join lf (fixedCodeStrings (sortBy compareImportRecords [?react, ?local]))
    \<and> mset (sortBy compareImportRecords [?react, ?local]) = mset [?react, ?local]
    \<and> sorted_wrt (\<lambda>a b. weight b = degenerateWeight \<longrightarrow> weight a = degenerateWeight)
          (sortBy compareImportRecords [?react, ?local])"
    using h unmatched_path_convention [of groups globMatch
        "defaultImportNode 27 ''local'' ''./local''" "Some ''local''" None "[]" "[?react, ?local]"]
    by blast
  have s: "sortBy compareImportRecords [?react, ?local] = [?local, ?react]"
    by (simp add: sortBy_def compareImportRecords_def areImportWeightsEqual_def
        areImportWeightsSequential_def getNumericImportWeight_def defaultImportRecord_def
        degenerateWeight_def Let_def)
  have t: "join lf (fixedCodeStrings [?local, ?react])
      = ''import local from '' @ sq @ ''./local'' @ sq @ '';'' @ lf
        @ ''import React from '' @ sq @ ''react'' @ sq @ '';''"
    by (simp add: defaultImportRecord_def degenerateWeight_def getImportRecordAsCodeString_def
        getDefaultImportRecordAsCodeString_def Let_def)
  have r1: "createImportRecord globMatch groups (defaultImportNode 0 ''React'' ''react'') = Inr ?react"
    by (simp add: createImportRecord_def defaultImportNode_def defaultImportRecord_def
        getImportWeight_def groups_def weightName_def typeWeight_def Let_def)
  have r2: "createImportRecord globMatch groups (defaultImportNode 27 ''local'' ''./local'') = Inr ?local"
    by (simp add: createImportRecord_def defaultImportNode_def defaultImportRecord_def
        getImportWeight_def groups_def degenerateWeight_def Let_def)
  from u s t r1 r2 show ?thesis by (simp add: defaultImportNode_def)
qed

subsection \<open>Building a record can throw\<close>

lemma scanGroups_Some_if_match:
  assumes "i < length gs" "j < length (gs ! i)" "isMatch p (gs ! i ! j)"
  shows "\<exists>a b. scanGroups isMatch p gs 0 = Some (a, b)"
proof -
  have "\<not> (\<forall>g\<in>set gs. \<forall>pat\<in>set g. \<not> isMatch p pat)"
    using assms by (meson nth_mem)
  then show ?thesis
    using scanGroups_None_iff [of isMatch p gs 0] by (cases "scanGroups isMatch p gs 0") auto
qed

text \<open>
  C10. Record construction is not total: for a declaration without specifiers (a bare
  side-effect import such as \<open>import 'react';\<close>) whose path matches a configured pattern,
  \<^verbatim>\<open>getImportWeight\<close> reads \<^verbatim>\<open>singleImports[0].alias\<close> of an empty array, and
  \<^verbatim>\<open>createImportRecord\<close> throws a TypeError instead of returning a record.
\<close>

theorem side_effect_import_throws:
  assumes "i < length gs" "j < length (gs ! i)" "isMatch (n_source_value nd) (gs ! i ! j)"
    and "n_specifiers nd = []"
  shows "createImportRecord isMatch gs nd = Inl TypeError"
proof -
  obtain a b where "scanGroups isMatch (n_source_value nd) gs 0 = Some (a, b)"
    using scanGroups_Some_if_match [of i gs j isMatch "n_source_value nd"] assms(1-3) by blast
  with assms(4) show ?thesis
    by (simp add: createImportRecord_def getImportWeight_def weightName_def Let_def)
qed

theorem side_effect_import_throws_witness:
  "createImportRecord globMatch groups
     \<lparr>n_start = 0, n_end = 15, n_specifiers = [], n_source_value = ''react''\<rparr> = Inl TypeError"
proof -
  have "(0::nat) < length groups" "(0::nat) < length (groups ! 0)"
    "globMatch (n_source_value \<lparr>n_start = 0, n_end = 15, n_specifiers = [], n_source_value = ''react''\<rparr>)
       (groups ! 0 ! 0)"
    "n_specifiers \<lparr>n_start = 0, n_end = 15, n_specifiers = [], n_source_value = ''react''\<rparr> = []"
    by (simp_all add: groups_def)
  then show ?thesis
    using side_effect_import_throws [of 0 groups 0 globMatch
      "\<lparr>n_start = 0, n_end = 15, n_specifiers = [], n_source_value = ''react''\<rparr>"]
    by blast
qed

subsection \<open>Rendering a default import with named imports\<close>

text \<open>
  C2. For a record with a default import and named imports the renderer joins the named
  imports with a comma and no space: the record of the function's own documented example
  is rendered as \<open>import React, { Component,createRef } from 'react';\<close>, not as the
  documented \<open>import React, { Component, createRef } from 'react';\<close>.
\<close>

theorem default_and_named_rendering_drops_space:
  "getDefaultAndSingleImportRecordAsCodeString
     \<lparr>defaultImport = Some ''React'', namespaceImport = None,
      singleImports = [\<lparr>si_name = ''Component'', si_alias = ''Component''\<rparr>,
                       \<lparr>si_name = ''createRef'', si_alias = ''createRef''\<rparr>],
      path = ''react'',
      weight = \<lparr>w_group = 0, w_pattern = 0, w_type = 0, w_name = ''React''\<rparr>,
      node = \<lparr>n_start = 0, n_end = 52, n_specifiers = [], n_source_value = ''react''\<rparr>\<rparr>
   = ''import React, { Component,createRef } from '' @ sq @ ''react'' @ sq @ '';''
   \<and> getImportRecordAsCodeString
     \<lparr>defaultImport = Some ''React'', namespaceImport = None,
      singleImports = [\<lparr>si_name = ''Component'', si_alias = ''Component''\<rparr>,
                       \<lparr>si_name = ''createRef'', si_alias = ''createRef''\<rparr>],
      path = ''react'',
      weight = \<lparr>w_group = 0, w_pattern = 0, w_type = 0, w_name = ''React''\<rparr>,
      node = \<lparr>n_start = 0, n_end = 52, n_specifiers = [], n_source_value = ''react''\<rparr>\<rparr>
   \<noteq> ''import React, { Component, createRef } from '' @ sq @ ''react'' @ sq @ '';''"
  by (simp add: getDefaultAndSingleImportRecordAsCodeString_def getImportRecordAsCodeString_def
      getSingleImportAsCodeString_def)

subsection \<open>The numeric key\<close>


lemma scanPatterns_bound:
  "scanPatterns isMatch p ps k = Some j \<Longrightarrow> k \<le> j \<and> j < k + length ps"
proof (induction ps arbitrary: k)
  case Nil
  then show ?case by simp
next
  case (Cons a ps)
  show ?case
  proof (cases "isMatch p a")
    case True
    with Cons.prems show ?thesis by simp
  next
    case False
    with Cons.prems have "scanPatterns isMatch p ps (Suc k) = Some j" by simp
    from Cons.IH [OF this] show ?thesis by simp
  qed
qed

lemma scanGroups_bound:
  "scanGroups isMatch p gs k = Some (i, j) \<Longrightarrow> \<exists>g\<in>set gs. j < length g"
proof (induction gs arbitrary: k)
  case Nil
  then show ?case by simp
next
  case (Cons g gs)
  show ?case
  proof (cases "scanPatterns isMatch p g 0")
    case None
    with Cons.prems have "scanGroups isMatch p gs (Suc k) = Some (i, j)" by simp
    from Cons.IH [OF this] show ?thesis by auto
  next
    case (Some j')
    with Cons.prems have "j' = j" by simp
    with Some scanPatterns_bound [of isMatch p g 0 j] show ?thesis by auto
  qed
qed

lemma getImportWeight_bounds:
  assumes "getImportWeight isMatch gs d n sis p = Inr w"
    and "\<forall>g\<in>set gs. length g \<le> 1000"
  shows "w_pattern w < 1000 \<and> w_type w \<le> 2"
proof (cases "scanGroups isMatch p gs 0")
  case None
  with assms(1) show ?thesis by (auto simp: getImportWeight_def)
next
  case (Some ij)
  obtain i j where ij: "ij = (i, j)" by (cases ij)
  from Some ij scanGroups_bound [of isMatch p gs 0 i j] assms(2)
  have "j < 1000" by fastforce
  with assms(1) Some ij show ?thesis
    by (auto simp: getImportWeight_def typeWeight_def split: sum.splits)
qed

lemma key_less_iff:
  fixes ga pa ta gb pb tb :: nat
  assumes "pa < 1000" "ta < 1000" "pb < 1000" "tb < 1000"
  shows "1000000 * ga + 1000 * pa + ta < 1000000 * gb + 1000 * pb + tb \<longleftrightarrow>
     ga < gb \<or> (ga = gb \<and> (pa < pb \<or> (pa = pb \<and> ta < tb)))"
proof -
  consider "ga < gb" | "gb < ga" | "ga = gb" "pa < pb" | "ga = gb" "pb < pa" | "ga = gb" "pa = pb"
    by linarith
  then show ?thesis
  proof cases
    case 1
    with assms show ?thesis by linarith
  next
    case 2
    with assms show ?thesis by linarith
  next
    case 3
    with assms show ?thesis by linarith
  next
    case 4
    with assms show ?thesis by linarith
  next
    case 5
    with assms show ?thesis by simp
  qed
qed

lemma numeric_less_iff:
  assumes "w_pattern a < 1000" "w_type a < 1000" "w_pattern b < 1000" "w_type b < 1000"
  shows "getNumericImportWeight a < getNumericImportWeight b \<longleftrightarrow>
     w_group a < w_group b \<or> (w_group a = w_group b \<and>
       (w_pattern a < w_pattern b \<or> (w_pattern a = w_pattern b \<and> w_type a < w_type b)))"
  unfolding getNumericImportWeight_def using assms by (rule key_less_iff)

lemma numeric_eq_iff:
  assumes "w_pattern a < 1000" "w_type a < 1000" "w_pattern b < 1000" "w_type b < 1000"
  shows "getNumericImportWeight a = getNumericImportWeight b \<longleftrightarrow>
     w_group a = w_group b \<and> w_pattern a = w_pattern b \<and> w_type a = w_type b"
proof
  assume e: "getNumericImportWeight a = getNumericImportWeight b"
  then have n1: "\<not> getNumericImportWeight a < getNumericImportWeight b"
    and n2: "\<not> getNumericImportWeight b < getNumericImportWeight a" by simp_all
  from n1 have l1: "\<not> (w_group a < w_group b \<or> (w_group a = w_group b \<and>
       (w_pattern a < w_pattern b \<or> (w_pattern a = w_pattern b \<and> w_type a < w_type b))))"
    using numeric_less_iff [OF assms] by blast
  from n2 have l2: "\<not> (w_group b < w_group a \<or> (w_group b = w_group a \<and>
       (w_pattern b < w_pattern a \<or> (w_pattern b = w_pattern a \<and> w_type b < w_type a))))"
    using numeric_less_iff [OF assms(3,4,1,2)] by blast
  from l1 l2 show "w_group a = w_group b \<and> w_pattern a = w_pattern b \<and> w_type a = w_type b"
    by (metis nat_neq_iff)
next
  assume "w_group a = w_group b \<and> w_pattern a = w_pattern b \<and> w_type a = w_type b"
  then show "getNumericImportWeight a = getNumericImportWeight b"
    by (simp add: getNumericImportWeight_def)
qed

lemma groups_lengths: "\<forall>g\<in>set groups. length g \<le> 1000"
  by (simp add: groups_def)

text \<open>
  C8. For any two weights computed against the repository's configuration, under any
  matcher, the numeric key orders them exactly as the lexicographic order on
  (group, pattern, type) does, and two keys are equal only when the three components
  are; the type contribution stays below 1000 and the pattern and type contributions
  together below 1000000.
\<close>

theorem numeric_weight_is_lexicographic:
  assumes "getImportWeight isMatch groups d1 n1 sis1 p1 = Inr w1"
    and "getImportWeight isMatch groups d2 n2 sis2 p2 = Inr w2"
  shows "(getNumericImportWeight w1 < getNumericImportWeight w2 \<longleftrightarrow>
           w_group w1 < w_group w2 \<or> (w_group w1 = w_group w2 \<and>
             (w_pattern w1 < w_pattern w2 \<or> (w_pattern w1 = w_pattern w2 \<and> w_type w1 < w_type w2))))
       \<and> (getNumericImportWeight w1 = getNumericImportWeight w2 \<longleftrightarrow>
           w_group w1 = w_group w2 \<and> w_pattern w1 = w_pattern w2 \<and> w_type w1 = w_type w2)
       \<and> w_type w1 < 1000 \<and> 1000 * w_pattern w1 + w_type w1 < 1000000"
proof -
  have b1: "w_pattern w1 < 1000 \<and> w_type w1 \<le> 2"
    using getImportWeight_bounds [of isMatch groups d1 n1 sis1 p1 w1] assms(1) groups_lengths
    by blast
  have b2: "w_pattern w2 < 1000 \<and> w_type w2 \<le> 2"
    using getImportWeight_bounds [of isMatch groups d2 n2 sis2 p2 w2] assms(2) groups_lengths
    by blast
  from b1 b2 have c: "w_pattern w1 < 1000" "w_type w1 < 1000" "w_pattern w2 < 1000" "w_type w2 < 1000"
    by auto
  from b1 have "w_type w1 < 1000 \<and> 1000 * w_pattern w1 + w_type w1 < 1000000" by arith
  with numeric_less_iff [OF c] numeric_eq_iff [OF c] show ?thesis by blast
qed

theorem numeric_weight_is_lexicographic_witness:
  "getImportWeight globMatch groups (Some ''ReactDOM'') None [] ''react-dom''
     = Inr \<lparr>w_group = 0, w_pattern = 2, w_type = 0, w_name = ''ReactDOM''\<rparr>
   \<and> getImportWeight globMatch groups None None [\<lparr>si_name = ''x'', si_alias = ''y''\<rparr>] ''sr-ui''
     = Inr \<lparr>w_group = 1, w_pattern = 0, w_type = 2, w_name = ''y''\<rparr>
   \<and> getNumericImportWeight \<lparr>w_group = 0, w_pattern = 2, w_type = 0, w_name = ''ReactDOM''\<rparr>
     < getNumericImportWeight \<lparr>w_group = 1, w_pattern = 0, w_type = 2, w_name = ''y''\<rparr>"
proof -
  have a: "getImportWeight globMatch groups (Some ''ReactDOM'') None [] ''react-dom''
     = Inr \<lparr>w_group = 0, w_pattern = 2, w_type = 0, w_name = ''ReactDOM''\<rparr>"
    by (simp add: getImportWeight_def groups_def weightName_def typeWeight_def)
  have b: "getImportWeight globMatch groups None None [\<lparr>si_name = ''x'', si_alias = ''y''\<rparr>] ''sr-ui''
     = Inr \<lparr>w_group = 1, w_pattern = 0, w_type = 2, w_name = ''y''\<rparr>"
    by (simp add: getImportWeight_def groups_def weightName_def typeWeight_def)
  from numeric_weight_is_lexicographic [OF a b] a b show ?thesis by simp
qed


subsection \<open>The validator\<close>

lemma validator_successively:
  "areImportRecordsCorrectlyGrouped lbl rs = successively (pairInOrder lbl) rs"
  by (induction lbl rs rule: areImportRecordsCorrectlyGrouped.induct)
     (auto simp: pairInOrder_def)

text \<open>
  C4. The validator accepts a list exactly when every adjacent pair has sequential weights
  and, where the group index increases from the first record of the pair to the second,
  the second declaration starts at least two line-break lengths after the end of the first.
  So a pair with increasing group and a smaller gap makes the validator reject the list,
  and a pair with sequential weights and a gap of at least two line-break lengths never
  does.
\<close>

theorem grouping_gap_rule:
  "areImportRecordsCorrectlyGrouped (LINE_BREAK_LENGTH pf) rs \<longleftrightarrow>
     (\<forall>i. Suc i < length rs \<longrightarrow>
        areImportWeightsSequential (weight (rs ! i)) (weight (rs ! Suc i)) \<and>
        (w_group (weight (rs ! i)) < w_group (weight (rs ! Suc i)) \<longrightarrow>
           2 * LINE_BREAK_LENGTH pf \<le> n_start (node (rs ! Suc i)) - n_end (node (rs ! i))))"
  unfolding validator_successively successively_conv_nth pairInOrder_def
  by (auto simp: mult.commute)

lemmas example_eval =
  defaultImportRecord_def defaultImportNode_def createImportRecord_def getImportWeight_def
  groups_def weightName_def typeWeight_def degenerateWeight_def Let_def
  LINE_BREAK_LENGTH_def areImportWeightsSequential_def areImportWeightsEqual_def
  getNumericImportWeight_def getFixedImportRecords_def sortBy_def compareImportRecords_def
  getImportRecordAsCodeString_def getDefaultImportRecordAsCodeString_def sq_def lf_def
  Program_def

lemma example_records:
  "createImportRecords globMatch groups
     [defaultImportNode 0 ''a'' ''./a'', defaultImportNode 21 ''b'' ''./b''] =
   Inr [defaultImportRecord 0 ''a'' ''./a'' degenerateWeight,
        defaultImportRecord 21 ''b'' ''./b'' degenerateWeight]"
  "createImportRecords globMatch groups
     [defaultImportNode 0 ''React'' ''react'', defaultImportNode 28 ''x'' ''sr-x''] =
   Inr [defaultImportRecord 0 ''React'' ''react'' \<lparr>w_group = 0, w_pattern = 0, w_type = 0, w_name = ''React''\<rparr>,
        defaultImportRecord 28 ''x'' ''sr-x'' \<lparr>w_group = 1, w_pattern = 0, w_type = 0, w_name = ''x''\<rparr>]"
  by (simp_all add: example_eval)

theorem grouping_gap_rule_witness:
  "\<not> areImportRecordsCorrectlyGrouped (LINE_BREAK_LENGTH OtherPlatform)
       [defaultImportRecord 0 ''React'' ''react'' \<lparr>w_group = 0, w_pattern = 0, w_type = 0, w_name = ''React''\<rparr>,
        defaultImportRecord 27 ''x'' ''sr-x'' \<lparr>w_group = 1, w_pattern = 0, w_type = 0, w_name = ''x''\<rparr>]
   \<and> areImportRecordsCorrectlyGrouped (LINE_BREAK_LENGTH OtherPlatform)
       [defaultImportRecord 0 ''React'' ''react'' \<lparr>w_group = 0, w_pattern = 0, w_type = 0, w_name = ''React''\<rparr>,
        defaultImportRecord 28 ''x'' ''sr-x'' \<lparr>w_group = 1, w_pattern = 0, w_type = 0, w_name = ''x''\<rparr>]"
  using
    grouping_gap_rule [of OtherPlatform
       "[defaultImportRecord 0 ''React'' ''react'' \<lparr>w_group = 0, w_pattern = 0, w_type = 0, w_name = ''React''\<rparr>,
        defaultImportRecord 27 ''x'' ''sr-x'' \<lparr>w_group = 1, w_pattern = 0, w_type = 0, w_name = ''x''\<rparr>]"]
    grouping_gap_rule [of OtherPlatform
       "[defaultImportRecord 0 ''React'' ''react'' \<lparr>w_group = 0, w_pattern = 0, w_type = 0, w_name = ''React''\<rparr>,
        defaultImportRecord 28 ''x'' ''sr-x'' \<lparr>w_group = 1, w_pattern = 0, w_type = 0, w_name = ''x''\<rparr>]"]
  by (simp add: example_eval)

text \<open>
  C1. The validator does not accept every list whose adjacent pairs are sequential or
  equal: two adjacent records whose weights agree in group, pattern, type and name make it
  reject the list, because it asks for \<^verbatim>\<open>areImportWeightsSequential\<close> alone, which is false
  on equal weights. (The comparator of the regenerator treats such a pair as a tie.)
\<close>

theorem validator_rejects_equal_weights:
  "areImportWeightsEqual (weight a) (weight b) \<Longrightarrow>
   \<not> areImportRecordsCorrectlyGrouped lbl (a # b # rest)"
  by (simp add: areImportWeightsEqual_def areImportWeightsSequential_def getNumericImportWeight_def)

theorem validator_rejects_equal_weights_witness:
  "areImportWeightsEqual (weight (defaultImportRecord 0 ''a'' ''./a'' degenerateWeight))
                         (weight (defaultImportRecord 21 ''b'' ''./b'' degenerateWeight))
   \<and> \<not> areImportRecordsCorrectlyGrouped (LINE_BREAK_LENGTH OtherPlatform)
        [defaultImportRecord 0 ''a'' ''./a'' degenerateWeight,
         defaultImportRecord 21 ''b'' ''./b'' degenerateWeight]"
proof -
  have e: "areImportWeightsEqual (weight (defaultImportRecord 0 ''a'' ''./a'' degenerateWeight))
                         (weight (defaultImportRecord 21 ''b'' ''./b'' degenerateWeight))"
    by (simp add: defaultImportRecord_def areImportWeightsEqual_def)
  from validator_rejects_equal_weights [OF e, of "LINE_BREAK_LENGTH OtherPlatform" "[]"] e
  show ?thesis by simp
qed

subsection \<open>The regenerator\<close>

text \<open>
  C3. The regenerated text is not always accepted when it is linted again. The file
  \<open>import a from './a';\<close>, line feed, \<open>import b from './b';\<close> has two declarations whose
  paths match no pattern of the configuration. Their records have equal weights; the
  regenerated text for them is the file's own text, whose declarations are the same two
  nodes at the same offsets (0 to 20 and 21 to 41); the validator rejects their records,
  and the rule reports the file with that same text as the fix.
\<close>

theorem regenerated_text_is_flagged_again:
  "createImportRecords globMatch groups
     [defaultImportNode 0 ''a'' ''./a'', defaultImportNode 21 ''b'' ''./b''] =
   Inr [defaultImportRecord 0 ''a'' ''./a'' degenerateWeight,
        defaultImportRecord 21 ''b'' ''./b'' degenerateWeight]
   \<and> getFixedImportRecords
       [defaultImportRecord 0 ''a'' ''./a'' degenerateWeight,
        defaultImportRecord 21 ''b'' ''./b'' degenerateWeight]
     = ''import a from '' @ sq @ ''./a'' @ sq @ '';'' @ lf @ ''import b from '' @ sq @ ''./b'' @ sq @ '';''
   \<and> n_start (defaultImportNode 0 ''a'' ''./a'') = 0
   \<and> n_end (defaultImportNode 0 ''a'' ''./a'') = int (length (''import a from '' @ sq @ ''./a'' @ sq @ '';''))
   \<and> n_start (defaultImportNode 21 ''b'' ''./b'')
       = int (length (''import a from '' @ sq @ ''./a'' @ sq @ '';'' @ lf))
   \<and> n_end (defaultImportNode 21 ''b'' ''./b'')
       = int (length (''import a from '' @ sq @ ''./a'' @ sq @ '';'' @ lf @ ''import b from '' @ sq @ ''./b'' @ sq @ '';''))
   \<and> \<not> areImportRecordsCorrectlyGrouped (LINE_BREAK_LENGTH OtherPlatform)
        [defaultImportRecord 0 ''a'' ''./a'' degenerateWeight,
         defaultImportRecord 21 ''b'' ''./b'' degenerateWeight]
   \<and> Program globMatch groups OtherPlatform
       [defaultImportNode 0 ''a'' ''./a'', defaultImportNode 21 ''b'' ''./b''] =
     Inr (Some \<lparr>range_start = 0, range_end = 41,
       fix_text = ''import a from '' @ sq @ ''./a'' @ sq @ '';'' @ lf @ ''import b from '' @ sq @ ''./b'' @ sq @ '';''\<rparr>)"
  by (simp add: example_eval)

text \<open>
  A second way for regenerated text to be rejected: the regenerator separates groups by two
  line feeds, and on Win32 the validator asks for a gap of four characters. The text
  regenerated for a record of group 0 and a record of group 1 puts the second declaration
  at offset 28, two characters after the end of the first; its records are accepted on
  other platforms and rejected on Win32.
\<close>

lemma regenerated_groups_rejected_on_win32:
  "getFixedImportRecords
     [defaultImportRecord 0 ''React'' ''react'' \<lparr>w_group = 0, w_pattern = 0, w_type = 0, w_name = ''React''\<rparr>,
      defaultImportRecord 28 ''x'' ''sr-x'' \<lparr>w_group = 1, w_pattern = 0, w_type = 0, w_name = ''x''\<rparr>]
     = ''import React from '' @ sq @ ''react'' @ sq @ '';'' @ lf @ lf
       @ ''import x from '' @ sq @ ''sr-x'' @ sq @ '';''
   \<and> n_end (defaultImportNode 0 ''React'' ''react'') = 26
   \<and> areImportRecordsCorrectlyGrouped (LINE_BREAK_LENGTH OtherPlatform)
     [defaultImportRecord 0 ''React'' ''react'' \<lparr>w_group = 0, w_pattern = 0, w_type = 0, w_name = ''React''\<rparr>,
      defaultImportRecord 28 ''x'' ''sr-x'' \<lparr>w_group = 1, w_pattern = 0, w_type = 0, w_name = ''x''\<rparr>]
   \<and> \<not> areImportRecordsCorrectlyGrouped (LINE_BREAK_LENGTH Win32)
     [defaultImportRecord 0 ''React'' ''react'' \<lparr>w_group = 0, w_pattern = 0, w_type = 0, w_name = ''React''\<rparr>,
      defaultImportRecord 28 ''x'' ''sr-x'' \<lparr>w_group = 1, w_pattern = 0, w_type = 0, w_name = ''x''\<rparr>]"
  by (simp add: example_eval)

text \<open>
  C7, as stated, fails: the two records above are a permutation of each other's list, and
  the regenerated text follows the order in which they are supplied.
\<close>

theorem regenerator_depends_on_input_order:
  "mset [defaultImportRecord 0 ''a'' ''./a'' degenerateWeight,
         defaultImportRecord 21 ''b'' ''./b'' degenerateWeight]
   = mset [defaultImportRecord 21 ''b'' ''./b'' degenerateWeight,
           defaultImportRecord 0 ''a'' ''./a'' degenerateWeight]
   \<and> getFixedImportRecords
       [defaultImportRecord 0 ''a'' ''./a'' degenerateWeight,
        defaultImportRecord 21 ''b'' ''./b'' degenerateWeight]
     = ''import a from '' @ sq @ ''./a'' @ sq @ '';'' @ lf @ ''import b from '' @ sq @ ''./b'' @ sq @ '';''
   \<and> getFixedImportRecords
       [defaultImportRecord 21 ''b'' ''./b'' degenerateWeight,
        defaultImportRecord 0 ''a'' ''./a'' degenerateWeight]
     = ''import b from '' @ sq @ ''./b'' @ sq @ '';'' @ lf @ ''import a from '' @ sq @ ''./a'' @ sq @ '';''
   \<and> getFixedImportRecords
       [defaultImportRecord 0 ''a'' ''./a'' degenerateWeight,
        defaultImportRecord 21 ''b'' ''./b'' degenerateWeight]
     \<noteq> getFixedImportRecords
       [defaultImportRecord 21 ''b'' ''./b'' degenerateWeight,
        defaultImportRecord 0 ''a'' ''./a'' degenerateWeight]"
  by (simp add: example_eval)

lemma weight_eq_iff:
  "weight a = weight b \<longleftrightarrow> areImportWeightsEqual (weight a) (weight b)"
  by (cases "weight a"; cases "weight b") (auto simp: areImportWeightsEqual_def)

lemma orderingKey_eq_iff:
  assumes "inRange a" "inRange b"
  shows "orderingKey a = orderingKey b \<longleftrightarrow> weight a = weight b"
proof -
  have "getNumericImportWeight (weight a) = getNumericImportWeight (weight b) \<longleftrightarrow>
      w_group (weight a) = w_group (weight b) \<and> w_pattern (weight a) = w_pattern (weight b) \<and>
      w_type (weight a) = w_type (weight b)"
    using assms by (intro numeric_eq_iff) (auto simp: inRange_def)
  then show ?thesis
    unfolding weight_eq_iff by (auto simp: orderingKey_def areImportWeightsEqual_def)
qed

lemma compare_le_iff:
  assumes "inRange a" "inRange b"
  shows "compareImportRecords a b \<le> 0 \<longleftrightarrow> orderingKey a \<le> orderingKey b"
proof (cases "weight a = weight b")
  case True
  then have "orderingKey a = orderingKey b" by (simp add: orderingKey_def)
  moreover from True have "compareImportRecords a b = 0"
    by (simp add: compareImportRecords_def areImportWeightsEqual_def)
  ultimately show ?thesis by simp
next
  case False
  then have ne: "\<not> areImportWeightsEqual (weight a) (weight b)" by (simp add: weight_eq_iff)
  from False have kne: "orderingKey a \<noteq> orderingKey b"
    using orderingKey_eq_iff [OF assms] by simp
  have "compareImportRecords a b \<le> 0 \<longleftrightarrow> areImportWeightsSequential (weight a) (weight b)"
    using ne by (simp add: compareImportRecords_def)
  also have "\<dots> \<longleftrightarrow> orderingKey a < orderingKey b"
    by (auto simp: areImportWeightsSequential_def orderingKey_def Let_def less_prod_def)
  also have "\<dots> \<longleftrightarrow> orderingKey a \<le> orderingKey b"
    using kne by auto
  finally show ?thesis .
qed

lemma insertBy_insort_key:
  assumes "inRange x" "\<forall>y\<in>set ys. inRange y"
  shows "insertBy compareImportRecords x ys = insort_key orderingKey x ys"
  using assms by (induction ys) (auto simp: compare_le_iff)

text \<open>
  On records in range the insertion sort by the comparator is the stable sort by
  \<open>orderingKey\<close>; any other stable sort by the same comparator returns the same list.
\<close>

lemma sortBy_sort_key:
  assumes "\<forall>x\<in>set xs. inRange x"
  shows "sortBy compareImportRecords xs = sort_key orderingKey xs"
  using assms
proof (induction xs)
  case Nil
  then show ?case by (simp add: sortBy_def)
next
  case (Cons x xs)
  then have "sortBy compareImportRecords xs = sort_key orderingKey xs" by simp
  moreover have "\<forall>y\<in>set (sort_key orderingKey xs). inRange y" using Cons.prems by simp
  ultimately show ?case using Cons.prems insertBy_insort_key [of x "sort_key orderingKey xs"]
    by (simp add: sortBy_def)
qed

lemma sort_key_order_independent:
  assumes m: "mset xs = mset ys"
    and r: "\<forall>x\<in>set xs. inRange x"
    and f: "\<forall>w. filter (\<lambda>x. weight x = w) xs = filter (\<lambda>x. weight x = w) ys"
  shows "sort_key orderingKey xs = sort_key orderingKey ys"
proof (rule properties_for_sort_key)
  show "mset (sort_key orderingKey ys) = mset xs" using m by simp
  show "sorted (map orderingKey (sort_key orderingKey ys))" by simp
  fix k assume k: "k \<in> set (sort_key orderingKey ys)"
  from m have s: "set ys = set xs" by (metis set_mset_mset)
  with k r have rk: "inRange k" by simp
  have c1: "\<And>zs. set zs = set xs \<Longrightarrow>
      filter (\<lambda>x. orderingKey k = orderingKey x) zs = filter (\<lambda>x. weight x = weight k) zs"
  proof -
    fix zs :: "ImportRecord list" assume "set zs = set xs"
    then have "\<forall>z\<in>set zs. inRange z" using r by simp
    then show "filter (\<lambda>x. orderingKey k = orderingKey x) zs = filter (\<lambda>x. weight x = weight k) zs"
      using rk by (intro filter_cong) (auto simp: orderingKey_eq_iff)
  qed
  have "filter (\<lambda>x. orderingKey k = orderingKey x) (sort_key orderingKey ys)
      = filter (\<lambda>x. weight x = weight k) (sort_key orderingKey ys)"
    using s by (intro c1) simp
  also have "\<dots> = sort_key orderingKey (filter (\<lambda>x. weight x = weight k) ys)"
    by (simp add: filter_sort)
  also have "\<dots> = sort_key orderingKey (filter (\<lambda>x. orderingKey x = orderingKey k) ys)"
    using c1 [of ys] s by (simp add: eq_commute)
  also have "\<dots> = filter (\<lambda>x. orderingKey x = orderingKey k) (sort_key orderingKey ys)"
    by (simp add: filter_sort)
  also have "\<dots> = filter (\<lambda>x. orderingKey x = orderingKey k) ys"
    by (rule sort_key_stable)
  also have "\<dots> = filter (\<lambda>x. weight x = weight k) ys"
    using c1 [of ys] s by (simp add: eq_commute)
  also have "\<dots> = filter (\<lambda>x. weight x = weight k) xs" using f by simp
  also have "\<dots> = filter (\<lambda>x. orderingKey k = orderingKey x) xs"
    using c1 [of xs] by simp
  finally show "filter (\<lambda>x. orderingKey k = orderingKey x) (sort_key orderingKey ys)
      = filter (\<lambda>x. orderingKey k = orderingKey x) xs" .
qed

text \<open>
  Regenerating from the sorted records gives the same text again: on records in range the
  sorted list is a fixed point of the sort.
\<close>

lemma regenerator_fixed_point:
  assumes "\<forall>r\<in>set rs. inRange r"
  shows "getFixedImportRecords (sortBy compareImportRecords rs) = getFixedImportRecords rs"
proof -
  have s: "sortBy compareImportRecords rs = sort_key orderingKey rs"
    using assms by (rule sortBy_sort_key)
  have "\<forall>r\<in>set (sort_key orderingKey rs). inRange r" using assms by simp
  then have "sortBy compareImportRecords (sort_key orderingKey rs)
      = sort_key orderingKey (sort_key orderingKey rs)"
    by (rule sortBy_sort_key)
  also have "\<dots> = sort_key orderingKey rs"
    by (rule sort_key_id_if_sorted) simp
  finally show ?thesis by (simp add: getFixedImportRecords_def s)
qed

lemma sortBy_stable:
  assumes "\<forall>x\<in>set xs. inRange x"
  shows "filter (\<lambda>r. weight r = w) (sortBy compareImportRecords xs) = filter (\<lambda>r. weight r = w) xs"
proof (cases "\<exists>k\<in>set xs. weight k = w")
  case False
  then have "filter (\<lambda>r. weight r = w) xs = []" by (auto simp: filter_empty_conv)
  moreover from False have "filter (\<lambda>r. weight r = w) (sortBy compareImportRecords xs) = []"
    by (auto simp: filter_empty_conv set_sortBy)
  ultimately show ?thesis by simp
next
  case True
  then obtain k where k: "k \<in> set xs" "weight k = w" by blast
  with assms have rk: "inRange k" by simp
  have c: "\<And>zs. set zs = set xs \<Longrightarrow>
      filter (\<lambda>r. weight r = w) zs = filter (\<lambda>r. orderingKey r = orderingKey k) zs"
  proof -
    fix zs :: "ImportRecord list" assume "set zs = set xs"
    then have "\<forall>z\<in>set zs. inRange z" using assms by simp
    then show "filter (\<lambda>r. weight r = w) zs = filter (\<lambda>r. orderingKey r = orderingKey k) zs"
      using rk k(2) by (intro filter_cong) (auto simp: orderingKey_eq_iff)
  qed
  have "filter (\<lambda>r. weight r = w) (sortBy compareImportRecords xs)
      = filter (\<lambda>r. orderingKey r = orderingKey k) (sort_key orderingKey xs)"
    using c [of "sort_key orderingKey xs"] by (simp add: sortBy_sort_key [OF assms])
  also have "\<dots> = filter (\<lambda>r. orderingKey r = orderingKey k) xs"
    by (rule sort_key_stable)
  also have "\<dots> = filter (\<lambda>r. weight r = w) xs"
    using c [of xs] by simp
  finally show ?thesis .
qed

lemma sortBy_sorted:
  assumes "\<forall>x\<in>set xs. inRange x"
  shows "sorted_wrt (\<lambda>a b. compareImportRecords a b \<le> 0) (sortBy compareImportRecords xs)"
proof -
  have "sorted (map orderingKey (sort_key orderingKey xs))" by simp
  then have "sorted_wrt (\<lambda>a b. orderingKey a \<le> orderingKey b) (sort_key orderingKey xs)"
    by (simp add: sorted_map)
  moreover have "\<forall>x\<in>set (sort_key orderingKey xs). inRange x" using assms by simp
  ultimately have "sorted_wrt (\<lambda>a b. compareImportRecords a b \<le> 0) (sort_key orderingKey xs)"
    by (rule_tac sorted_wrt_mono_rel [rotated]) (auto simp: compare_le_iff)
  then show ?thesis by (simp add: sortBy_sort_key [OF assms])
qed

text \<open>
  C7, amended. Provided pattern index and type of every weight are below 1000, as they are
  for every weight computed against the repository's configuration: the regenerated text
  is the same for two orders of the same records in which the records of each weight
  appear in the same relative order (so for every permutation when the weights are
  pairwise distinct). The text joins, by line feeds, one string per record of the sorted
  list, in order (the record's rendering, with a line feed appended where the next record
  is of another group); the sorted list holds exactly the records supplied, in an order in
  which no record compares greater than a later one, and with the records of each weight
  in the order in which they were supplied.
\<close>

theorem regenerator_order_independent:
  assumes "mset xs = mset ys"
    and "\<forall>r\<in>set xs. w_pattern (weight r) < 1000 \<and> w_type (weight r) < 1000"
    and "\<forall>w. filter (\<lambda>r. weight r = w) xs = filter (\<lambda>r. weight r = w) ys"
  shows "getFixedImportRecords xs = getFixedImportRecords ys
       \<and> getFixedImportRecords xs = join lf (fixedCodeStrings (sortBy compareImportRecords xs))
       \<and> length (fixedCodeStrings (sortBy compareImportRecords xs)) = length xs
       \<and> (\<forall>i<length xs. fixedCodeStrings (sortBy compareImportRecords xs) ! i =
            getImportRecordAsCodeString (sortBy compareImportRecords xs ! i) @
              (if Suc i < length xs \<and>
                  w_group (weight (sortBy compareImportRecords xs ! Suc i))
                    \<noteq> w_group (weight (sortBy compareImportRecords xs ! i))
               then lf else []))
       \<and> mset (sortBy compareImportRecords xs) = mset xs
       \<and> sorted_wrt (\<lambda>a b. compareImportRecords a b \<le> 0) (sortBy compareImportRecords xs)
       \<and> (\<forall>w. filter (\<lambda>r. weight r = w) (sortBy compareImportRecords xs)
               = filter (\<lambda>r. weight r = w) xs)"
proof -
  have rx: "\<forall>x\<in>set xs. inRange x" using assms(2) by (simp add: inRange_def)
  from assms(1) have "set ys = set xs" by (metis set_mset_mset)
  with rx have ry: "\<forall>x\<in>set ys. inRange x" by simp
  have "sortBy compareImportRecords xs = sortBy compareImportRecords ys"
    using sort_key_order_independent [OF assms(1) rx assms(3)]
    by (simp add: sortBy_sort_key rx ry)
  then have "getFixedImportRecords xs = getFixedImportRecords ys"
    by (simp add: getFixedImportRecords_def)
  moreover have "getFixedImportRecords xs = join lf (fixedCodeStrings (sortBy compareImportRecords xs))"
    by (simp add: getFixedImportRecords_def)
  moreover note fixedCodeStrings_sortBy [of compareImportRecords xs]
  moreover note mset_sortBy [of compareImportRecords xs] sortBy_sorted [OF rx]
  moreover have "\<forall>w. filter (\<lambda>r. weight r = w) (sortBy compareImportRecords xs)
               = filter (\<lambda>r. weight r = w) xs"
    using sortBy_stable [OF rx] by blast
  ultimately show ?thesis by blast
qed

theorem regenerator_order_independent_witness:
  "getFixedImportRecords
     [defaultImportRecord 0 ''a'' ''./a'' degenerateWeight,
      defaultImportRecord 21 ''x'' ''sr-x'' \<lparr>w_group = 1, w_pattern = 0, w_type = 0, w_name = ''x''\<rparr>,
      defaultImportRecord 43 ''b'' ''./b'' degenerateWeight]
   = getFixedImportRecords
     [defaultImportRecord 21 ''x'' ''sr-x'' \<lparr>w_group = 1, w_pattern = 0, w_type = 0, w_name = ''x''\<rparr>,
      defaultImportRecord 0 ''a'' ''./a'' degenerateWeight,
      defaultImportRecord 43 ''b'' ''./b'' degenerateWeight]
   \<and> sortBy compareImportRecords
     [defaultImportRecord 21 ''x'' ''sr-x'' \<lparr>w_group = 1, w_pattern = 0, w_type = 0, w_name = ''x''\<rparr>,
      defaultImportRecord 0 ''a'' ''./a'' degenerateWeight,
      defaultImportRecord 43 ''b'' ''./b'' degenerateWeight]
   = [defaultImportRecord 0 ''a'' ''./a'' degenerateWeight,
      defaultImportRecord 43 ''b'' ''./b'' degenerateWeight,
      defaultImportRecord 21 ''x'' ''sr-x'' \<lparr>w_group = 1, w_pattern = 0, w_type = 0, w_name = ''x''\<rparr>]
   \<and> getFixedImportRecords
     [defaultImportRecord 0 ''a'' ''./a'' degenerateWeight,
      defaultImportRecord 21 ''x'' ''sr-x'' \<lparr>w_group = 1, w_pattern = 0, w_type = 0, w_name = ''x''\<rparr>,
      defaultImportRecord 43 ''b'' ''./b'' degenerateWeight]
   = ''import a from '' @ sq @ ''./a'' @ sq @ '';'' @ lf
     @ ''import b from '' @ sq @ ''./b'' @ sq @ '';'' @ lf @ lf
     @ ''import x from '' @ sq @ ''sr-x'' @ sq @ '';''"
proof -
  let ?a = "defaultImportRecord 0 ''a'' ''./a'' degenerateWeight"
  let ?x = "defaultImportRecord 21 ''x'' ''sr-x'' \<lparr>w_group = 1, w_pattern = 0, w_type = 0, w_name = ''x''\<rparr>"
  let ?b = "defaultImportRecord 43 ''b'' ''./b'' degenerateWeight"
  have m: "mset [?a, ?x, ?b] = mset [?x, ?a, ?b]" by simp
  have r: "\<forall>r\<in>set [?a, ?x, ?b]. w_pattern (weight r) < 1000 \<and> w_type (weight r) < 1000"
    by (simp add: defaultImportRecord_def degenerateWeight_def)
  have f: "\<forall>w. filter (\<lambda>r. weight r = w) [?a, ?x, ?b] = filter (\<lambda>r. weight r = w) [?x, ?a, ?b]"
    by (auto simp: defaultImportRecord_def degenerateWeight_def)
  have e: "getFixedImportRecords [?a, ?x, ?b] = getFixedImportRecords [?x, ?a, ?b]"
    using regenerator_order_independent [OF m r f] by blast
  have s: "sortBy compareImportRecords [?x, ?a, ?b] = [?a, ?b, ?x]"
    by (simp add: example_eval)
  have t: "getFixedImportRecords [?a, ?x, ?b]
      = ''import a from '' @ sq @ ''./a'' @ sq @ '';'' @ lf
        @ ''import b from '' @ sq @ ''./b'' @ sq @ '';'' @ lf @ lf
        @ ''import x from '' @ sq @ ''sr-x'' @ sq @ '';''"
    by (simp add: example_eval)
  from e s t show ?thesis by blast
qed

end
